theory Spec2Isabelle
  imports Main "HOL-Library.Word"
begin

unbundle bit_operations_syntax

section \<open>Errors\<close>

text \<open>
  Every Go \<^verbatim>\<open>error\<close> value the decoding engine can produce or receive.  The
  payload of \<^verbatim>\<open>fmt.Errorf\<close> is kept as the wrapped error where there is one.
\<close>

datatype error =
    ErrSyntax                   \<comment> \<open>\<^verbatim>\<open>strconv.ErrSyntax\<close>\<close>
  | ErrRange                    \<comment> \<open>\<^verbatim>\<open>strconv.ErrRange\<close>\<close>
  | ErrInvalidRational string   \<comment> \<open>\<^verbatim>\<open>invalid format for Rational: %s\<close>\<close>
  | ErrParseInt error           \<comment> \<open>\<^verbatim>\<open>failed to parse int: %v\<close>\<close>
  | ErrParseFloat error         \<comment> \<open>\<^verbatim>\<open>failed to parse float: %v\<close>\<close>
  | ErrParseTime                \<comment> \<open>\<^verbatim>\<open>unable to parse time: %s\<close>\<close>
  | ErrParseTag string error    \<comment> \<open>\<^verbatim>\<open>failed to parse tags for field %s: %v\<close>\<close>
  | ErrNoGPSInfo error          \<comment> \<open>\<^verbatim>\<open>no GPS info found: %v\<close>\<close>
  | ErrParseGPSInfo error       \<comment> \<open>\<^verbatim>\<open>failed to parse GPS info: %v\<close>\<close>
  | ErrInvalidGPSCoordinates    \<comment> \<open>\<^verbatim>\<open>invalid GPS coordinates\<close>\<close>
  | ErrExtractExif error        \<comment> \<open>\<^verbatim>\<open>failed to extract EXIF data: %v\<close>\<close>
  | ErrBuildIfdIndex error      \<comment> \<open>\<^verbatim>\<open>failed to build IFD index: %v\<close>\<close>
  | ErrExternal string          \<comment> \<open>an error returned by a collaborator library\<close>

section \<open>Strings: \<^verbatim>\<open>strings.Split\<close>, \<^verbatim>\<open>strconv.Atoi\<close>, \<^verbatim>\<open>%d\<close>\<close>

text \<open>
  \<^verbatim>\<open>strings.Split(s, sep)\<close> for a one-byte separator, the only kind the
  repository uses (\<^verbatim>\<open>"/"\<close>, \<^verbatim>\<open>","\<close>, \<^verbatim>\<open>"\x00"\<close>).  The result always has
  at least one element: the empty string splits into one empty segment.
\<close>

fun Split :: "string \<Rightarrow> char \<Rightarrow> string list" where
  "Split [] sep = [[]]"
| "Split (c # cs) sep =
     (if c = sep then [] # Split cs sep
      else (case Split cs sep of
              [] \<Rightarrow> [[c]]
            | p # ps \<Rightarrow> (c # p) # ps))"

definition isDigit :: "char \<Rightarrow> bool" where
  "isDigit c = (c \<in> set ''0123456789'')"

definition digitVal :: "char \<Rightarrow> int" where
  "digitVal c = of_char c - 48"

text \<open>The digit loop of \<^verbatim>\<open>strconv.ParseInt\<close> in base 10: \<^verbatim>\<open>n = n*10 + d\<close>,
  a syntax error at the first byte that is not a decimal digit.\<close>

fun parseDigits :: "int \<Rightarrow> string \<Rightarrow> int option" where
  "parseDigits n [] = Some n"
| "parseDigits n (c # cs) =
     (if isDigit c then parseDigits (n * 10 + digitVal c) cs else None)"

definition MaxInt64 :: int where "MaxInt64 = 2 ^ 63 - 1"
definition MinInt64 :: int where "MinInt64 = - (2 ^ 63)"

text \<open>
  \<^verbatim>\<open>strconv.ParseInt(s, 10, 64)\<close>, which is also \<^verbatim>\<open>strconv.Atoi\<close> on a
  64-bit platform: an optional sign, at least one decimal digit, nothing else, and a
  value that fits \<^verbatim>\<open>int64\<close>.
\<close>

definition ParseInt :: "string \<Rightarrow> error + int" where
  "ParseInt s =
     (if s = [] then Inl ErrSyntax
      else
        let neg = (hd s = CHR ''-'');
            body = (if hd s = CHR ''+'' \<or> hd s = CHR ''-'' then tl s else s)
        in if body = [] then Inl ErrSyntax
           else (case parseDigits 0 body of
                   None \<Rightarrow> Inl ErrSyntax
                 | Some n \<Rightarrow>
                     let v = (if neg then - n else n)
                     in if v < MinInt64 \<or> MaxInt64 < v then Inl ErrRange else Inr v))"

definition Atoi :: "string \<Rightarrow> error + int" where
  "Atoi s = ParseInt s"

definition digitChar :: "nat \<Rightarrow> char" where
  "digitChar d = ''0123456789'' ! d"

text \<open>The decimal digits of a natural number, most significant first, as \<^verbatim>\<open>%d\<close>
  prints them.\<close>

fun natDigits :: "nat \<Rightarrow> string" where
  "natDigits n = (if n < 10 then [digitChar n] else natDigits (n div 10) @ [digitChar (n mod 10)])"

declare natDigits.simps [simp del]

definition fmt_d :: "int \<Rightarrow> string" where
  "fmt_d i = (if i < 0 then CHR ''-'' # natDigits (nat (- i)) else natDigits (nat i))"

section \<open>Rational (\<^verbatim>\<open>exif_data_types.go\<close>)\<close>

record Rational =
  Numerator :: int
  Denominator :: int

definition Rational_zero :: Rational where
  "Rational_zero = \<lparr>Numerator = 0, Denominator = 0\<rparr>"

definition NewRational :: "string \<Rightarrow> error + Rational" where
  "NewRational s =
     (let parts = Split s CHR ''/''
      in if length parts \<noteq> 2 then Inl (ErrInvalidRational s)
         else (case Atoi (parts ! 0) of
                 Inl e \<Rightarrow> Inl e
               | Inr numerator \<Rightarrow>
                   (case Atoi (parts ! 1) of
                      Inl e \<Rightarrow> Inl e
                    | Inr denominator \<Rightarrow>
                        Inr \<lparr>Numerator = numerator, Denominator = denominator\<rparr>)))"

definition String :: "Rational \<Rightarrow> string" where
  "String r = fmt_d (Numerator r) @ ''/'' @ fmt_d (Denominator r)"

text \<open>
  The words of the specification about the textual form \<^verbatim>\<open>"N/D"\<close>, to compare
  the code with.  An integer part is an optional sign and a non-empty run of
  decimal digits whose value fits Go's \<^verbatim>\<open>int\<close>; it is canonical when it is
  written as \<^verbatim>\<open>%d\<close> writes it: no plus sign, no leading zero, no \<^verbatim>\<open>-0\<close>.
\<close>

definition decVal :: "string \<Rightarrow> int" where
  "decVal s = foldl (\<lambda>n c. n * 10 + digitVal c) 0 s"


definition canonicalNat :: "string \<Rightarrow> bool" where
  "canonicalNat s = (s \<noteq> [] \<and> list_all isDigit s \<and> (hd s = CHR ''0'' \<longrightarrow> s = ''0''))"

definition canonicalInt :: "string \<Rightarrow> bool" where
  "canonicalInt s =
     (if s \<noteq> [] \<and> hd s = CHR ''-'' then canonicalNat (tl s) \<and> tl s \<noteq> ''0''
      else canonicalNat s)"

section \<open>Floating point and time (the Go values the record holds)\<close>

text \<open>
  A \<^verbatim>\<open>float64\<close> is its 64 bits.  The engine never computes with floats: it
  stores them, compares the altitude (an \<^verbatim>\<open>int\<close>) with zero and asks
  \<^verbatim>\<open>math.IsNaN\<close>, which holds when the exponent bits are all ones and the
  fraction is not zero.
\<close>

type_synonym float64 = "64 word"

definition IsNaN :: "float64 \<Rightarrow> bool" where
  "IsNaN f = (0x7FF0000000000000 < (f AND 0x7FFFFFFFFFFFFFFF))"

text \<open>
  A \<^verbatim>\<open>*time.Location\<close>.  \<^verbatim>\<open>time.UTC\<close> is one fixed pointer, and the code
  compares locations with it by pointer; every other location is a zone with a
  name, the offset in force before its first transition, and its transitions
  \<open>(when, offset)\<close> in ascending order of \<open>when\<close> (Unix seconds), each giving the
  offset east of UTC, in seconds, from that instant on.
\<close>

datatype Location = UTC | Zone string int "(int \<times> int) list"

definition alpha :: int where "alpha = - (2 ^ 63)"
definition omega :: int where "omega = 2 ^ 63 - 1"

text \<open>\<^verbatim>\<open>Location.lookup\<close>: the offset in force at a Unix time, with the bounds
  \<open>[start, end)\<close> of the period it is in force.\<close>

fun lookupTx :: "int \<Rightarrow> int \<Rightarrow> (int \<times> int) list \<Rightarrow> int \<Rightarrow> int \<times> int \<times> int" where
  "lookupTx off start [] s = (off, start, omega)"
| "lookupTx off start ((w, off') # txs) s =
     (if s < w then (off, start, w) else lookupTx off' w txs s)"

fun lookup :: "Location \<Rightarrow> int \<Rightarrow> int \<times> int \<times> int" where
  "lookup UTC s = (0, alpha, omega)"
| "lookup (Zone name off0 txs) s = lookupTx off0 alpha txs s"

text \<open>
  A \<^verbatim>\<open>time.Time\<close>: an instant, counted as Go does in seconds since January 1,
  year 1, 00:00:00 UTC, plus nanoseconds, and the location it is presented in.
  The zero \<^verbatim>\<open>Time\<close> is second 0 in UTC.
\<close>

record Time =
  sec :: int
  nsec :: int
  loc :: Location

definition Time_zero :: Time where
  "Time_zero = \<lparr>sec = 0, nsec = 0, loc = UTC\<rparr>"

definition unixToInternal :: int where
  "unixToInternal = (1969 * 365 + 1969 div 4 - 1969 div 100 + 1969 div 400) * 86400"

definition unixSec :: "Time \<Rightarrow> int" where
  "unixSec t = sec t - unixToInternal"

definition IsZero :: "Time \<Rightarrow> bool" where
  "IsZero t = (sec t = 0 \<and> nsec t = 0)"

definition Location_of :: "Time \<Rightarrow> Location" where
  "Location_of t = loc t"

definition In :: "Time \<Rightarrow> Location \<Rightarrow> Time" where
  "In t l = t\<lparr>loc := l\<rparr>"

definition ToUTC :: "Time \<Rightarrow> Time" where
  "ToUTC t = t\<lparr>loc := UTC\<rparr>"

text \<open>\<^verbatim>\<open>Time.Zone\<close>: the offset of the time's location at its instant.\<close>

definition ZoneOffset :: "Time \<Rightarrow> int" where
  "ZoneOffset t = fst (lookup (loc t) (unixSec t))"

text \<open>\<^verbatim>\<open>Time.abs\<close>: the seconds shown on the wall clock of the time's location,
  counted from January 1, year 1, 00:00:00 of that clock.\<close>

definition abs_sec :: "Time \<Rightarrow> int" where
  "abs_sec t = sec t + ZoneOffset t"

definition isLeap :: "int \<Rightarrow> bool" where
  "isLeap year = (year mod 4 = 0 \<and> (year mod 100 \<noteq> 0 \<or> year mod 400 = 0))"

definition daysBefore :: "int list" where
  "daysBefore = [0, 31, 59, 90, 120, 151, 181, 212, 243, 273, 304, 334, 365]"

text \<open>The month and the day of the month of day \<open>yday\<close> (from 0) of a year, as
  the second half of \<^verbatim>\<open>absDate\<close> finds them.\<close>

definition monthDay :: "bool \<Rightarrow> int \<Rightarrow> int \<times> int" where
  "monthDay leap yday =
     (if leap \<and> yday = 31 + 29 - 1 then (2, 29)
      else
        let day = (if leap \<and> yday > 31 + 29 - 1 then yday - 1 else yday);
            month = day div 31;
            end = daysBefore ! nat (month + 1)
        in if day \<ge> end then (month + 2, day - end + 1)
           else (month + 1, day - daysBefore ! nat month + 1))"

text \<open>
  \<^verbatim>\<open>absDate\<close>: year, month, day and day of the year of a count of
  wall-clock seconds, by cutting off 400-year, 100-year, 4-year and 1-year
  cycles.  Go counts from a year that is 1 modulo 400 far in the past so as to
  stay unsigned; counting from year 1 with flooring division is the same
  computation.
\<close>

definition absDate :: "int \<Rightarrow> int \<times> int \<times> int \<times> int" where
  "absDate a =
     (let d0 = a div 86400;
          n400 = d0 div 146097;
          d1 = d0 - 146097 * n400;
          c100 = d1 div 36524;
          n100 = c100 - c100 div 4;
          d2 = d1 - 36524 * n100;
          n4 = d2 div 1461;
          d3 = d2 - 1461 * n4;
          c1 = d3 div 365;
          n1 = c1 - c1 div 4;
          yday = d3 - 365 * n1;
          year = 400 * n400 + 100 * n100 + 4 * n4 + n1 + 1;
          md = monthDay (isLeap year) yday
      in (year, fst md, snd md, yday))"

definition Year :: "Time \<Rightarrow> int" where
  "Year t = fst (absDate (abs_sec t))"

definition Month :: "Time \<Rightarrow> int" where
  "Month t = fst (snd (absDate (abs_sec t)))"

definition Day :: "Time \<Rightarrow> int" where
  "Day t = fst (snd (snd (absDate (abs_sec t))))"

definition Hour :: "Time \<Rightarrow> int" where
  "Hour t = (abs_sec t mod 86400) div 3600"

definition Minute :: "Time \<Rightarrow> int" where
  "Minute t = (abs_sec t mod 3600) div 60"

definition Second :: "Time \<Rightarrow> int" where
  "Second t = abs_sec t mod 60"

definition Nanosecond :: "Time \<Rightarrow> int" where
  "Nanosecond t = nsec t"

text \<open>\<^verbatim>\<open>norm\<close>: carry \<open>lo\<close> into \<open>hi\<close> until \<open>0 \<le> lo < base\<close>.  The
  operands of each division are not negative, where Go's truncation and HOL's
  flooring agree.\<close>

definition norm :: "int \<Rightarrow> int \<Rightarrow> int \<Rightarrow> int \<times> int" where
  "norm hi lo base =
     (let (hi1, lo1) =
            (if lo < 0
             then (let n = (- lo - 1) div base + 1 in (hi - n, lo + n * base))
             else (hi, lo))
      in if lo1 \<ge> base
         then (let n = lo1 div base in (hi1 + n, lo1 - n * base))
         else (hi1, lo1))"

definition daysSinceEpoch :: "int \<Rightarrow> int" where
  "daysSinceEpoch year =
     (let y0 = year - 1;
          n400 = y0 div 400;
          y1 = y0 - 400 * n400;
          n100 = y1 div 100;
          y2 = y1 - 100 * n100;
          n4 = y2 div 4;
          y3 = y2 - 4 * n4
      in 146097 * n400 + 36524 * n100 + 1461 * n4 + 365 * y3)"

text \<open>
  \<^verbatim>\<open>time.Date\<close>: the instant whose wall clock in \<open>l\<close> shows the given
  components.  The seconds are first computed as if the clock were UTC; the
  zone's offset at that number is then subtracted, and looked up a second time
  when the result falls outside the period the first offset is in force.  A
  wall-clock time that a zone transition skips has no such instant, and the
  result then shows a different wall clock.
\<close>

definition Date :: "int \<Rightarrow> int \<Rightarrow> int \<Rightarrow> int \<Rightarrow> int \<Rightarrow> int \<Rightarrow> int \<Rightarrow> Location \<Rightarrow> Time" where
  "Date year month day hour minute sec' nsec' l =
     (let (year1, m) = norm year (month - 1) 12;
          month1 = m + 1;
          (sec1, nsec1) = norm sec' nsec' 1000000000;
          (min1, sec2) = norm minute sec1 60;
          (hour1, min2) = norm hour min1 60;
          (day1, hour2) = norm day hour1 24;
          d = daysSinceEpoch year1 + daysBefore ! nat (month1 - 1)
                + (if isLeap year1 \<and> month1 \<ge> 3 then 1 else 0)
                + (day1 - 1);
          a = d * 86400 + (hour2 * 3600 + min2 * 60 + sec2);
          unix = a - unixToInternal;
          (offset, start, end) = lookup l unix;
          unix1 =
            (if offset \<noteq> 0
             then (let utc = unix - offset;
                       offset1 = (if utc < start \<or> utc \<ge> end then fst (lookup l utc) else offset)
                   in unix - offset1)
             else unix)
      in \<lparr>sec = unix1 + unixToInternal, nsec = nsec1, loc = l\<rparr>)"

text \<open>\<^verbatim>\<open>%02d\<close>: at least two characters, padded with zeros.\<close>

definition fmt_02d :: "int \<Rightarrow> string" where
  "fmt_02d i = (if 0 \<le> i \<and> i < 10 then CHR ''0'' # fmt_d i else fmt_d i)"

section \<open>The output record (\<^verbatim>\<open>image_data.go\<close>)\<close>

text \<open>
  The engine fills \<^verbatim>\<open>ImageData\<close> by reflection: it walks the struct's fields
  by index and reads each field's name, type and tag.  The struct is therefore a
  store from its fields to typed values, with the fields, in declaration order,
  and what reflection reports about each of them, written out from
  \<^verbatim>\<open>image_data.go\<close>.
\<close>

datatype field =
    GPSLatitude | GPSLongitude | GPSAltitude | GPSTimeZone | GPSTimestamp | GPSTimestampLocal
  | GPSProcessingMethod | GPSStatus | GPSSatellites | GPSHPositioningError | GPSSpeed | GPSTrack
  | GPSImgDirection | GPSDestLatitude | GPSDestLongitude | GPSDestBearing | GPSDestDistance
  | CameraMake | CameraModel | CameraExposure | ISOSpeed | ShutterSpeed | Software | DateTime
  | DateTimeOriginal | DateTimeDigitized | TimeOffset | SubSecOriginal | HasTimeOffset
  | LensMake | LensModel | LensFocalLength | LensAperture | LensFocalLength35mm | LensMaxAperture
  | LensMinAperture | LensMaxFocalLength
  | ImageWidth | ImageHeight | ImageOrientation | ColorSpace | Compression | XResolution
  | YResolution | ResolutionUnit
  | Artist | Copyright | Description | WhiteBalance | Flash | MeteringMode | ExposureProgram
  | SceneCaptureType | SubjectDistance | DigitalZoomRatio

datatype FieldType = TString | TInt | TFloat64 | TTime | TRational | TBool

datatype val =
    VString (strVal: string)
  | VInt (intVal: int)
  | VFloat (floatVal: float64)
  | VTime (timeVal: Time)
  | VRational (ratVal: Rational)
  | VBool (boolVal: bool)

type_synonym ImageData = "field \<Rightarrow> val"

definition ImageData_fields :: "field list" where
  "ImageData_fields =
     [GPSLatitude, GPSLongitude, GPSAltitude, GPSTimeZone, GPSTimestamp, GPSTimestampLocal,
      GPSProcessingMethod, GPSStatus, GPSSatellites, GPSHPositioningError, GPSSpeed, GPSTrack,
      GPSImgDirection, GPSDestLatitude, GPSDestLongitude, GPSDestBearing, GPSDestDistance,
      CameraMake, CameraModel, CameraExposure, ISOSpeed, ShutterSpeed, Software, DateTime,
      DateTimeOriginal, DateTimeDigitized, TimeOffset, SubSecOriginal, HasTimeOffset,
      LensMake, LensModel, LensFocalLength, LensAperture, LensFocalLength35mm, LensMaxAperture,
      LensMinAperture, LensMaxFocalLength,
      ImageWidth, ImageHeight, ImageOrientation, ColorSpace, Compression, XResolution,
      YResolution, ResolutionUnit,
      Artist, Copyright, Description, WhiteBalance, Flash, MeteringMode, ExposureProgram,
      SceneCaptureType, SubjectDistance, DigitalZoomRatio]"

text \<open>What \<^verbatim>\<open>reflect\<close> reports for a field: its name, its type, and its struct
  tag as the list of its \<^verbatim>\<open>key:"value"\<close> pairs.\<close>

primrec StructField :: "field \<Rightarrow> string \<times> FieldType \<times> (string \<times> string) list" where
  "StructField GPSLatitude = (''GPSLatitude'', TFloat64, [(''exif'', ''GPSLatitude'')])"
| "StructField GPSLongitude = (''GPSLongitude'', TFloat64, [(''exif'', ''GPSLongitude'')])"
| "StructField GPSAltitude = (''GPSAltitude'', TFloat64, [(''exif'', ''GPSAltitude'')])"
| "StructField GPSTimeZone = (''GPSTimeZone'', TString, [])"
| "StructField GPSTimestamp = (''GPSTimestamp'', TTime, [(''exif'', ''GPSDateStamp,GPSTimeStamp'')])"
| "StructField GPSTimestampLocal = (''GPSTimestampLocal'', TTime, [])"
| "StructField GPSProcessingMethod = (''GPSProcessingMethod'', TString, [(''exif'', ''GPSProcessingMethod'')])"
| "StructField GPSStatus = (''GPSStatus'', TString, [(''exif'', ''GPSStatus'')])"
| "StructField GPSSatellites = (''GPSSatellites'', TString, [(''exif'', ''GPSSatellites'')])"
| "StructField GPSHPositioningError = (''GPSHPositioningError'', TFloat64, [(''exif'', ''GPSHPositioningError'')])"
| "StructField GPSSpeed = (''GPSSpeed'', TFloat64, [(''exif'', ''GPSSpeed'')])"
| "StructField GPSTrack = (''GPSTrack'', TFloat64, [(''exif'', ''GPSTrack'')])"
| "StructField GPSImgDirection = (''GPSImgDirection'', TFloat64, [(''exif'', ''GPSImgDirection'')])"
| "StructField GPSDestLatitude = (''GPSDestLatitude'', TFloat64, [(''exif'', ''GPSDestLatitude'')])"
| "StructField GPSDestLongitude = (''GPSDestLongitude'', TFloat64, [(''exif'', ''GPSDestLongitude'')])"
| "StructField GPSDestBearing = (''GPSDestBearing'', TFloat64, [(''exif'', ''GPSDestBearing'')])"
| "StructField GPSDestDistance = (''GPSDestDistance'', TFloat64, [(''exif'', ''GPSDestDistance'')])"
| "StructField CameraMake = (''CameraMake'', TString, [(''exif'', ''Make,CameraMake'')])"
| "StructField CameraModel = (''CameraModel'', TString, [(''exif'', ''Model,CameraModel'')])"
| "StructField CameraExposure = (''CameraExposure'', TString, [(''exif'', ''ExposureTime,Exposure'')])"
| "StructField ISOSpeed = (''ISOSpeed'', TInt, [(''exif'', ''ISOSpeedRatings,ISO'')])"
| "StructField ShutterSpeed = (''ShutterSpeed'', TString, [(''exif'', ''ShutterSpeedValue'')])"
| "StructField Software = (''Software'', TString, [(''exif'', ''Software'')])"
| "StructField DateTime = (''DateTime'', TTime, [(''exif'', ''DateTime,CreateDate'')])"
| "StructField DateTimeOriginal = (''DateTimeOriginal'', TTime, [(''exif'', ''DateTimeOriginal,OriginalDateTime'')])"
| "StructField DateTimeDigitized = (''DateTimeDigitized'', TTime, [(''exif'', ''DateTimeDigitized,DigitizedDateTime'')])"
| "StructField TimeOffset = (''TimeOffset'', TString, [(''exif'', ''OffsetTime,OffsetTimeOriginal,OffsetTimeDigitized'')])"
| "StructField SubSecOriginal = (''SubSecOriginal'', TString, [(''exif'', ''SubSecTimeOriginal,SubSecTime'')])"
| "StructField HasTimeOffset = (''HasTimeOffset'', TBool, [])"
| "StructField LensMake = (''LensMake'', TString, [(''exif'', ''LensMake'')])"
| "StructField LensModel = (''LensModel'', TString, [(''exif'', ''LensModel,Lens'')])"
| "StructField LensFocalLength = (''LensFocalLength'', TString, [(''exif'', ''FocalLength'')])"
| "StructField LensAperture = (''LensAperture'', TString, [(''exif'', ''FNumber,ApertureValue'')])"
| "StructField LensFocalLength35mm = (''LensFocalLength35mm'', TString, [(''exif'', ''FocalLengthIn35mmFilm'')])"
| "StructField LensMaxAperture = (''LensMaxAperture'', TString, [(''exif'', ''MaxApertureValue'')])"
| "StructField LensMinAperture = (''LensMinAperture'', TString, [(''exif'', ''MinApertureValue'')])"
| "StructField LensMaxFocalLength = (''LensMaxFocalLength'', TString, [(''exif'', ''MaxFocalLength'')])"
| "StructField ImageWidth = (''ImageWidth'', TInt, [(''exif'', ''ImageWidth,PixelXDimension,ExifImageWidth,SourceImageWidth'')])"
| "StructField ImageHeight = (''ImageHeight'', TInt, [(''exif'', ''ImageHeight,PixelYDimension,ExifImageHeight,SourceImageHeight'')])"
| "StructField ImageOrientation = (''ImageOrientation'', TInt, [(''exif'', ''Orientation'')])"
| "StructField ColorSpace = (''ColorSpace'', TString, [(''exif'', ''ColorSpace'')])"
| "StructField Compression = (''Compression'', TString, [(''exif'', ''Compression'')])"
| "StructField XResolution = (''XResolution'', TRational, [(''exif'', ''XResolution'')])"
| "StructField YResolution = (''YResolution'', TRational, [(''exif'', ''YResolution'')])"
| "StructField ResolutionUnit = (''ResolutionUnit'', TString, [(''exif'', ''ResolutionUnit'')])"
| "StructField Artist = (''Artist'', TString, [(''exif'', ''Artist,Creator'')])"
| "StructField Copyright = (''Copyright'', TString, [(''exif'', ''Copyright,CopyrightNotice'')])"
| "StructField Description = (''Description'', TString, [(''exif'', ''ImageDescription,Description'')])"
| "StructField WhiteBalance = (''WhiteBalance'', TString, [(''exif'', ''WhiteBalance'')])"
| "StructField Flash = (''Flash'', TString, [(''exif'', ''Flash,FlashFired'')])"
| "StructField MeteringMode = (''MeteringMode'', TString, [(''exif'', ''MeteringMode'')])"
| "StructField ExposureProgram = (''ExposureProgram'', TString, [(''exif'', ''ExposureProgram'')])"
| "StructField SceneCaptureType = (''SceneCaptureType'', TString, [(''exif'', ''SceneCaptureType'')])"
| "StructField SubjectDistance = (''SubjectDistance'', TFloat64, [(''exif'', ''SubjectDistance'')])"
| "StructField DigitalZoomRatio = (''DigitalZoomRatio'', TFloat64, [(''exif'', ''DigitalZoomRatio'')])"

definition Name :: "field \<Rightarrow> string" where
  "Name f = fst (StructField f)"

definition Type_of :: "field \<Rightarrow> FieldType" where
  "Type_of f = fst (snd (StructField f))"

definition StructTag :: "field \<Rightarrow> (string \<times> string) list" where
  "StructTag f = snd (snd (StructField f))"

text \<open>Every field of \<^verbatim>\<open>ImageData\<close> is exported and the struct is reached through
  a pointer, so \<^verbatim>\<open>CanSet\<close> holds of each.\<close>

definition CanSet :: "field \<Rightarrow> bool" where
  "CanSet f = True"

primrec zeroVal :: "FieldType \<Rightarrow> val" where
  "zeroVal TString = VString []"
| "zeroVal TInt = VInt 0"
| "zeroVal TFloat64 = VFloat 0"
| "zeroVal TTime = VTime Time_zero"
| "zeroVal TRational = VRational Rational_zero"
| "zeroVal TBool = VBool False"

text \<open>\<^verbatim>\<open>ImageData{}\<close>: every field at the zero value of its type.\<close>

definition ImageData_zero :: ImageData where
  "ImageData_zero = (\<lambda>f. zeroVal (Type_of f))"

section \<open>The collaborators\<close>

text \<open>
  What the libraries hand to the engine.  A flat directory entry of
  \<^verbatim>\<open>exif.GetFlatExifDataUniversalSearch\<close>, with the fields the engine reads:
\<close>

record ExifTag =
  IfdPath :: string
  TagName :: string
  FormattedFirst :: string

definition ThumbnailFqIfdPath :: string where
  "ThumbnailFqIfdPath = ''IFD1''"

text \<open>\<^verbatim>\<open>exif.GpsInfo\<close>; latitude and longitude are held as the
  \<^verbatim>\<open>Decimal()\<close> value the engine reads from them.\<close>

record GpsInfo =
  Latitude_Decimal :: float64
  Longitude_Decimal :: float64
  Altitude :: int
  Timestamp :: Time

text \<open>The directory index, as far as the engine looks into it: the result of
  \<^verbatim>\<open>RootIfd.ChildWithIfdPath\<close> for the GPS directory and, of that directory, the
  result of \<^verbatim>\<open>GpsInfo()\<close>.\<close>

record Ifd =
  GpsInfo_result :: "error + GpsInfo"

record IfdIndex =
  GpsChild :: "error + Ifd"

text \<open>A parsed struct tag of \<^verbatim>\<open>go-mods/tags\<close>.\<close>

record Tag =
  Key :: string
  Value :: string

text \<open>
  The environment of a parse: the library calls whose results the engine only
  passes on, and the process-wide state it reads.  \<^verbatim>\<open>ParseFloat\<close> returns its
  value together with its error, as \<^verbatim>\<open>strconv.ParseFloat\<close> does (the
  auxiliary GPS fields store the value and drop the error).
\<close>

record env =
  GetFlatExifData :: "8 word list \<Rightarrow> error + ExifTag list"
  Collect :: "8 word list \<Rightarrow> error + IfdIndex"
  tzFinder :: "(float64 \<Rightarrow> float64 \<Rightarrow> string) option"
  LoadLocation :: "string \<Rightarrow> error + Location"
  Now :: Time
  ParseFloat :: "string \<Rightarrow> float64 \<times> error option"
  time_Parse :: "string \<Rightarrow> string \<Rightarrow> error + Time"
  float64_of_int :: "int \<Rightarrow> float64"

section \<open>The decoding engine (\<^verbatim>\<open>exifData_parser.go\<close>)\<close>

definition timeFormats :: "string list" where
  "timeFormats =
     [''2006:01:02 15:04:05'',
      ''2006:01:02 15:04:05-0700'',
      ''2006:01:02 15:04:05.000Z'',
      ''2006:01:02 15:04:05Z07:00'']"

record ExifDataParser =
  tagCache :: "string \<rightharpoonup> Tag list"

definition NewExifDataParser :: ExifDataParser where
  "NewExifDataParser = \<lparr>tagCache = Map.empty\<rparr>"

text \<open>\<^verbatim>\<open>tags.Parse\<close> on the tag of a field of \<^verbatim>\<open>ImageData\<close>: one
  \<^verbatim>\<open>Tag\<close> for each \<^verbatim>\<open>key:"value"\<close> pair.  The tags of \<^verbatim>\<open>image_data.go\<close>
  are well formed, so no error arises.\<close>

definition tags_Parse :: "(string \<times> string) list \<Rightarrow> error + Tag list" where
  "tags_Parse kvs = Inr (map (\<lambda>(k, v). \<lparr>Key = k, Value = v\<rparr>) kvs)"

definition getExifTags :: "ExifDataParser \<Rightarrow> field \<Rightarrow> (error + Tag list) \<times> ExifDataParser" where
  "getExifTags p f =
     (case tagCache p (Name f) of
        Some cachedTags \<Rightarrow> (Inr cachedTags, p)
      | None \<Rightarrow>
          (case tags_Parse (StructTag f) of
             Inl err \<Rightarrow> (Inl (ErrParseTag (Name f) err), p)
           | Inr parsedTags \<Rightarrow>
               let exifTags = filter (\<lambda>tag. Key tag = ''exif'') parsedTags
               in (Inr exifTags, p\<lparr>tagCache := (tagCache p)(Name f \<mapsto> exifTags)\<rparr>)))"

text \<open>The inner loop of \<^verbatim>\<open>getValueFromMetadata\<close>, over the names of one tag.\<close>

fun firstValue :: "(string \<rightharpoonup> string) \<Rightarrow> string list \<Rightarrow> string option" where
  "firstValue metadata [] = None"
| "firstValue metadata (name # names) =
     (case metadata name of
        Some v \<Rightarrow> if v \<noteq> [] then Some v else firstValue metadata names
      | None \<Rightarrow> firstValue metadata names)"

fun getValueFromMetadata :: "(string \<rightharpoonup> string) \<Rightarrow> Tag list \<Rightarrow> string \<times> bool" where
  "getValueFromMetadata metadata [] = ([], False)"
| "getValueFromMetadata metadata (tag # fieldTags) =
     (case firstValue metadata (Split (Value tag) CHR '','') of
        Some v \<Rightarrow> (v, True)
      | None \<Rightarrow> getValueFromMetadata metadata fieldTags)"

text \<open>The loop of \<^verbatim>\<open>buildMetadataMap\<close> over the flat entries.\<close>

fun buildMetadataLoop :: "(string \<rightharpoonup> string) \<Rightarrow> ExifTag list \<Rightarrow> (string \<rightharpoonup> string)" where
  "buildMetadataLoop metadata [] = metadata"
| "buildMetadataLoop metadata (e # entries) =
     (let s = Split (FormattedFirst e) (CHR 0x00)
      in if TagName e = [] \<or> length s = 0 then buildMetadataLoop metadata entries
         else if IfdPath e = ThumbnailFqIfdPath then buildMetadataLoop metadata entries
         else if length s > 0 \<and> s ! 0 \<noteq> []
              then buildMetadataLoop (metadata(TagName e \<mapsto> s ! 0)) entries
              else buildMetadataLoop metadata entries)"

definition buildMetadataMap :: "env \<Rightarrow> 8 word list \<Rightarrow> error + (string \<rightharpoonup> string)" where
  "buildMetadataMap E exifData =
     (case GetFlatExifData E exifData of
        Inl err \<Rightarrow> Inl err
      | Inr entries \<Rightarrow> Inr (buildMetadataLoop Map.empty entries))"

definition HasPrefix :: "string \<Rightarrow> string \<Rightarrow> bool" where
  "HasPrefix s p = (take (length p) s = p)"

definition isSpecialField :: "string \<Rightarrow> bool" where
  "isSpecialField fieldName = HasPrefix fieldName ''GPS''"

text \<open>The loop of \<^verbatim>\<open>parseTime\<close> over the layouts: the first that parses wins.\<close>

fun parseTimeLoop :: "env \<Rightarrow> string list \<Rightarrow> string \<Rightarrow> error + Time" where
  "parseTimeLoop E [] v = Inl ErrParseTime"
| "parseTimeLoop E (format # formats) v =
     (case time_Parse E format v of
        Inr t \<Rightarrow> Inr t
      | Inl err \<Rightarrow> parseTimeLoop E formats v)"

definition parseTime :: "env \<Rightarrow> string \<Rightarrow> error + Time" where
  "parseTime E v = parseTimeLoop E timeFormats v"

text \<open>\<^verbatim>\<open>setFieldValue\<close>: the record with the field set, or unchanged with the
  error.  A field of a kind the switch does not list (\<^verbatim>\<open>bool\<close>) is left as it
  is, with no error.\<close>

definition setFieldValue :: "env \<Rightarrow> ImageData \<Rightarrow> field \<Rightarrow> string \<Rightarrow> ImageData \<times> error option" where
  "setFieldValue E d f v =
     (case Type_of f of
        TString \<Rightarrow> (d(f := VString v), None)
      | TInt \<Rightarrow>
          (case ParseInt v of
             Inl err \<Rightarrow> (d, Some (ErrParseInt err))
           | Inr i \<Rightarrow> (d(f := VInt i), None))
      | TFloat64 \<Rightarrow>
          (case ParseFloat E v of
             (x, Some err) \<Rightarrow> (d, Some (ErrParseFloat err))
           | (x, None) \<Rightarrow> (d(f := VFloat x), None))
      | TTime \<Rightarrow>
          (case parseTime E v of
             Inl err \<Rightarrow> (d, Some err)
           | Inr t \<Rightarrow> (d(f := VTime t), None))
      | TRational \<Rightarrow>
          (case NewRational v of
             Inl err \<Rightarrow> (d, Some err)
           | Inr r \<Rightarrow> (d(f := VRational r), None))
      | TBool \<Rightarrow> (d, None))"

text \<open>
  \<^verbatim>\<open>adjustTimeWithTimezone\<close>.  The offset written to \<^verbatim>\<open>TimeOffset\<close> is the
  zone's offset at the moment of the call.  The three capture times are then
  taken in the source's order: original, digitized, primary.
\<close>

definition adjustTimeWithTimezone :: "env \<Rightarrow> ImageData \<Rightarrow> ImageData" where
  "adjustTimeWithTimezone E d =
     (if strVal (d GPSTimeZone) = [] then d
      else
        (case LoadLocation E (strVal (d GPSTimeZone)) of
           Inl err \<Rightarrow> d
         | Inr l \<Rightarrow>
             let now = In (ToUTC (Now E)) l;
                 offset = ZoneOffset now;
                 sign = (if offset < 0 then ''-'' else ''+'');
                 offset1 = (if offset < 0 then - offset else offset);
                 hours = offset1 div 3600;
                 minutes = (offset1 mod 3600) div 60;
                 d1 = d(TimeOffset := VString (sign @ fmt_02d hours @ fmt_02d minutes));
                 d2 = d1(HasTimeOffset := VBool True);
                 d3 =
                   (if \<not> IsZero (timeVal (d2 DateTimeOriginal))
                    then (if Location_of (timeVal (d2 DateTimeOriginal)) \<noteq> UTC
                          then d2(DateTimeOriginal := VTime (In (timeVal (d2 DateTimeOriginal)) l))
                          else d2(DateTimeOriginal := VTime (Date
                                 (Year (timeVal (d2 DateTimeOriginal)))
                                 (Month (timeVal (d2 DateTimeOriginal)))
                                 (Day (timeVal (d2 DateTimeOriginal)))
                                 (Hour (timeVal (d2 DateTimeOriginal)))
                                 (Minute (timeVal (d2 DateTimeOriginal)))
                                 (Second (timeVal (d2 DateTimeOriginal)))
                                 (Nanosecond (timeVal (d2 DateTimeOriginal)))
                                 l)))
                    else d2);
                 d4 =
                   (if \<not> IsZero (timeVal (d3 DateTimeDigitized))
                    then (if Location_of (timeVal (d3 DateTimeDigitized)) \<noteq> UTC
                          then d3(DateTimeDigitized := VTime (In (timeVal (d3 DateTimeDigitized)) l))
                          else d3(DateTimeDigitized := VTime (Date
                                 (Year (timeVal (d3 DateTimeDigitized)))
                                 (Month (timeVal (d3 DateTimeDigitized)))
                                 (Day (timeVal (d3 DateTimeDigitized)))
                                 (Hour (timeVal (d3 DateTimeDigitized)))
                                 (Minute (timeVal (d3 DateTimeDigitized)))
                                 (Second (timeVal (d3 DateTimeDigitized)))
                                 (Nanosecond (timeVal (d3 DateTimeDigitized)))
                                 l)))
                    else d3);
                 d5 =
                   (if \<not> IsZero (timeVal (d4 DateTime))
                    then (if Location_of (timeVal (d4 DateTime)) \<noteq> UTC
                          then d4(DateTime := VTime (In (timeVal (d4 DateTime)) l))
                          else d4(DateTime := VTime (Date
                                 (Year (timeVal (d4 DateTime)))
                                 (Month (timeVal (d4 DateTime)))
                                 (Day (timeVal (d4 DateTime)))
                                 (Hour (timeVal (d4 DateTime)))
                                 (Minute (timeVal (d4 DateTime)))
                                 (Second (timeVal (d4 DateTime)))
                                 (Nanosecond (timeVal (d4 DateTime)))
                                 l)))
                    else d4)
             in d5))"

definition processGPSCoordinates :: "env \<Rightarrow> ImageData \<Rightarrow> GpsInfo \<Rightarrow> ImageData \<times> error option" where
  "processGPSCoordinates E d gpsInfo =
     (if IsNaN (Latitude_Decimal gpsInfo) \<or> IsNaN (Longitude_Decimal gpsInfo)
      then (d, Some ErrInvalidGPSCoordinates)
      else
        let d1 = d(GPSLatitude := VFloat (Latitude_Decimal gpsInfo));
            d2 = d1(GPSLongitude := VFloat (Longitude_Decimal gpsInfo))
        in (case tzFinder E of
              None \<Rightarrow> (d2, None)
            | Some GetTimezoneName \<Rightarrow>
                let timezoneName =
                      GetTimezoneName (floatVal (d2 GPSLongitude)) (floatVal (d2 GPSLatitude))
                in if timezoneName \<noteq> []
                   then (adjustTimeWithTimezone E (d2(GPSTimeZone := VString timezoneName)), None)
                   else (d2, None)))"

definition processLocalTime :: "env \<Rightarrow> ImageData \<Rightarrow> ImageData" where
  "processLocalTime E d =
     (if strVal (d GPSTimeZone) = [] \<or> IsZero (timeVal (d GPSTimestamp)) then d
      else
        (case LoadLocation E (strVal (d GPSTimeZone)) of
           Inl err \<Rightarrow> d
         | Inr l \<Rightarrow> d(GPSTimestampLocal := VTime (In (timeVal (d GPSTimestamp)) l))))"

text \<open>One step of \<^verbatim>\<open>processAdditionalGPSMetadata\<close>: a string field, and a
  float field (which takes the value \<^verbatim>\<open>ParseFloat\<close> returns, error or not).\<close>

definition setIfPresent :: "(string \<rightharpoonup> string) \<Rightarrow> string \<Rightarrow> field \<Rightarrow> ImageData \<Rightarrow> ImageData" where
  "setIfPresent metadata key f d =
     (case metadata key of Some v \<Rightarrow> d(f := VString v) | None \<Rightarrow> d)"

definition setFloatIfPresent :: "env \<Rightarrow> (string \<rightharpoonup> string) \<Rightarrow> string \<Rightarrow> field \<Rightarrow> ImageData \<Rightarrow> ImageData" where
  "setFloatIfPresent E metadata key f d =
     (case metadata key of Some v \<Rightarrow> d(f := VFloat (fst (ParseFloat E v))) | None \<Rightarrow> d)"

definition processAdditionalGPSMetadata :: "env \<Rightarrow> ImageData \<Rightarrow> (string \<rightharpoonup> string) \<Rightarrow> ImageData" where
  "processAdditionalGPSMetadata E d metadata =
     (let d1 = setIfPresent metadata ''GPSProcessingMethod'' GPSProcessingMethod d;
          d2 = setIfPresent metadata ''GPSStatus'' GPSStatus d1;
          d3 = setIfPresent metadata ''GPSSatellites'' GPSSatellites d2;
          d4 = setFloatIfPresent E metadata ''GPSHPositioningError'' GPSHPositioningError d3;
          d5 = setFloatIfPresent E metadata ''GPSSpeed'' GPSSpeed d4;
          d6 = setFloatIfPresent E metadata ''GPSTrack'' GPSTrack d5;
          d7 = setFloatIfPresent E metadata ''GPSImgDirection'' GPSImgDirection d6;
          d8 = setFloatIfPresent E metadata ''GPSDestLatitude'' GPSDestLatitude d7;
          d9 = setFloatIfPresent E metadata ''GPSDestLongitude'' GPSDestLongitude d8;
          d10 = setFloatIfPresent E metadata ''GPSDestBearing'' GPSDestBearing d9;
          d11 = setFloatIfPresent E metadata ''GPSDestDistance'' GPSDestDistance d10
      in d11)"

definition extractGPSInfo ::
    "env \<Rightarrow> ImageData \<Rightarrow> (string \<rightharpoonup> string) \<Rightarrow> IfdIndex \<Rightarrow> ImageData \<times> error option" where
  "extractGPSInfo E d metadata ifdIndex =
     (case GpsChild ifdIndex of
        Inl err \<Rightarrow> (d, Some (ErrNoGPSInfo err))
      | Inr ifd \<Rightarrow>
          (case GpsInfo_result ifd of
             Inl err \<Rightarrow> (d, Some (ErrParseGPSInfo err))
           | Inr gpsInfo \<Rightarrow>
               (case processGPSCoordinates E d gpsInfo of
                  (d1, Some err) \<Rightarrow> (d1, Some err)
                | (d1, None) \<Rightarrow>
                    let d2 = (if Altitude gpsInfo \<noteq> 0
                              then d1(GPSAltitude := VFloat (float64_of_int E (Altitude gpsInfo)))
                              else d1);
                        d3 = (if \<not> IsZero (Timestamp gpsInfo)
                              then processLocalTime E (d2(GPSTimestamp := VTime (Timestamp gpsInfo)))
                              else d2)
                    in (processAdditionalGPSMetadata E d3 metadata, None))))"

text \<open>The loop of \<^verbatim>\<open>parseWithReflection\<close> over the fields of the struct: the
  generic pass.  A warning that is only logged leaves no trace in the result.\<close>

fun reflectLoop ::
    "env \<Rightarrow> (string \<rightharpoonup> string) \<Rightarrow> field list \<Rightarrow> ExifDataParser \<times> ImageData
       \<Rightarrow> ExifDataParser \<times> ImageData" where
  "reflectLoop E metadata [] (p, d) = (p, d)"
| "reflectLoop E metadata (f # fs) (p, d) =
     (if \<not> CanSet f then reflectLoop E metadata fs (p, d)
      else if isSpecialField (Name f) then reflectLoop E metadata fs (p, d)
      else
        (case getExifTags p f of
           (Inl err, p1) \<Rightarrow> reflectLoop E metadata fs (p1, d)
         | (Inr fieldTags, p1) \<Rightarrow>
             if length fieldTags = 0 then reflectLoop E metadata fs (p1, d)
             else
               (case getValueFromMetadata metadata fieldTags of
                  (v, True) \<Rightarrow> reflectLoop E metadata fs (p1, fst (setFieldValue E d f v))
                | (v, False) \<Rightarrow> reflectLoop E metadata fs (p1, d))))"

definition parseWithReflection ::
    "env \<Rightarrow> ExifDataParser \<Rightarrow> (string \<rightharpoonup> string) \<Rightarrow> IfdIndex
       \<Rightarrow> (ImageData \<times> error option) \<times> ExifDataParser" where
  "parseWithReflection E p metadata ifdIndex =
     (let (p1, imageData) = reflectLoop E metadata ImageData_fields (p, ImageData_zero);
          (imageData1, gpsErr) = extractGPSInfo E imageData metadata ifdIndex
      in ((imageData1, None), p1))"

definition Parse ::
    "env \<Rightarrow> ExifDataParser \<Rightarrow> 8 word list \<Rightarrow> (ImageData \<times> error option) \<times> ExifDataParser" where
  "Parse E p exifData =
     (case buildMetadataMap E exifData of
        Inl err \<Rightarrow> ((ImageData_zero, Some (ErrExtractExif err)), p)
      | Inr metadata \<Rightarrow>
          (case Collect E exifData of
             Inl err \<Rightarrow> ((ImageData_zero, Some (ErrBuildIfdIndex err)), p)
           | Inr ifdIndex \<Rightarrow> parseWithReflection E p metadata ifdIndex))"

section \<open>Rational: the textual form\<close>

lemma isDigit_cases:
  "isDigit c \<Longrightarrow> 0 \<le> digitVal c \<and> digitVal c \<le> 9 \<and> digitChar (nat (digitVal c)) = c"
  by (auto simp: isDigit_def digitVal_def digitChar_def)

lemma isDigit_not_sign: "isDigit c \<Longrightarrow> c \<noteq> CHR ''-'' \<and> c \<noteq> CHR ''+'' \<and> c \<noteq> CHR ''/''"
  by (auto simp: isDigit_def)

lemma digitVal_zero: "isDigit c \<Longrightarrow> digitVal c = 0 \<longleftrightarrow> c = CHR ''0''"
  by (auto simp: isDigit_def digitVal_def)

lemma parseDigits_foldl:
  "parseDigits n s = (if list_all isDigit s then Some (foldl (\<lambda>n c. n * 10 + digitVal c) n s) else None)"
  by (induction s arbitrary: n) auto

lemma parseDigits_decVal:
  "parseDigits 0 s = (if list_all isDigit s then Some (decVal s) else None)"
  by (simp add: parseDigits_foldl decVal_def)


lemma Split_nonempty: "Split s c \<noteq> []"
  by (induction s) (simp_all split: list.splits)

lemma Split_Cons_sep: "Split (c # xs) c = [] # Split xs c"
  by simp

lemma Split_Cons_other: "x \<noteq> c \<Longrightarrow> Split (x # xs) c = (x # hd (Split xs c)) # tl (Split xs c)"
  using Split_nonempty[of xs c] by (cases "Split xs c") simp_all

lemma Split_single: "Split s c = [a] \<longleftrightarrow> s = a \<and> c \<notin> set a"
proof (induction s arbitrary: a)
  case Nil
  show ?case by auto
next
  case (Cons x xs)
  show ?case
  proof (cases "x = c")
    case True
    have "Split (x # xs) c \<noteq> [a]"
      using Split_nonempty[of xs c] by (simp add: True)
    moreover have "\<not> (x # xs = a \<and> c \<notin> set a)" using True by auto
    ultimately show ?thesis by blast
  next
    case False
    show ?thesis
    proof
      assume L: "Split (x # xs) c = [a]"
      then have "Split xs c = [tl a]" and "a = x # tl a"
        using False Split_nonempty[of xs c] by (auto split: list.splits)
      then show "x # xs = a \<and> c \<notin> set a"
        using Cons.IH[of "tl a"] False by (metis set_ConsD)
    next
      assume R: "x # xs = a \<and> c \<notin> set a"
      then have "Split xs c = [xs]" using Cons.IH[of xs] by auto
      then show "Split (x # xs) c = [a]" using False R by auto
    qed
  qed
qed

lemma Split_pair:
  "Split s c = [a, b] \<longleftrightarrow> s = a @ c # b \<and> c \<notin> set a \<and> c \<notin> set b"
proof (induction s arbitrary: a)
  case Nil
  show ?case by auto
next
  case (Cons x xs)
  show ?case
  proof (cases "x = c")
    case True
    have "Split (x # xs) c = [a, b] \<longleftrightarrow> a = [] \<and> Split xs c = [b]"
      by (auto simp: True)
    also have "\<dots> \<longleftrightarrow> a = [] \<and> xs = b \<and> c \<notin> set b" by (simp add: Split_single)
    also have "\<dots> \<longleftrightarrow> x # xs = a @ c # b \<and> c \<notin> set a \<and> c \<notin> set b"
      using True by (cases a) auto
    finally show ?thesis .
  next
    case False
    show ?thesis
    proof
      assume L: "Split (x # xs) c = [a, b]"
      then have S: "Split xs c = [tl a, b]" and a: "a = x # tl a"
        using False Split_nonempty[of xs c] by (auto split: list.splits)
      have "xs = tl a @ c # b \<and> c \<notin> set (tl a) \<and> c \<notin> set b"
        using Cons.IH[of "tl a"] S by simp
      then show "x # xs = a @ c # b \<and> c \<notin> set a \<and> c \<notin> set b"
        using a False by (metis append_Cons set_ConsD)
    next
      assume R: "x # xs = a @ c # b \<and> c \<notin> set a \<and> c \<notin> set b"
      then obtain a' where a: "a = x # a'" using False by (cases a) auto
      then have "Split xs c = [a', b]" using Cons.IH[of a'] R by auto
      then show "Split (x # xs) c = [a, b]" using False a by auto
    qed
  qed
qed

lemma length2_iff: "length xs = 2 \<longleftrightarrow> (\<exists>a b. xs = [a, b])"
  by (cases xs; cases "tl xs") auto

lemma foldl_dec_ge:
  "list_all isDigit s \<Longrightarrow> 0 \<le> n \<Longrightarrow> n \<le> foldl (\<lambda>n c. n * 10 + digitVal c) n s"
proof (induction s arbitrary: n)
  case Nil
  then show ?case by simp
next
  case (Cons c cs)
  have d: "0 \<le> digitVal c" using Cons.prems isDigit_cases by simp
  have "n \<le> n * 10 + digitVal c" using d Cons.prems by simp
  also have "\<dots> \<le> foldl (\<lambda>n c. n * 10 + digitVal c) (n * 10 + digitVal c) cs"
    using Cons.IH[of "n * 10 + digitVal c"] Cons.prems d by simp
  finally show ?case by simp
qed

lemma decVal_nonneg: "list_all isDigit s \<Longrightarrow> 0 \<le> decVal s"
  using foldl_dec_ge[of s 0] by (simp add: decVal_def)

lemma decVal_pos:
  assumes "list_all isDigit s" "s \<noteq> []" "hd s \<noteq> CHR ''0''"
  shows "1 \<le> decVal s"
proof -
  obtain c cs where s: "s = c # cs" using assms(2) by (cases s) auto
  have c: "isDigit c" "c \<noteq> CHR ''0''" using assms s by auto
  then have "1 \<le> digitVal c" using isDigit_cases[of c] digitVal_zero[of c] by linarith
  moreover have "digitVal c \<le> foldl (\<lambda>n c. n * 10 + digitVal c) (digitVal c) cs"
    using foldl_dec_ge[of cs "digitVal c"] assms(1) s isDigit_cases[of c] by simp
  ultimately show ?thesis by (simp add: decVal_def s)
qed

lemma decVal_snoc: "decVal (s @ [c]) = decVal s * 10 + digitVal c"
  by (simp add: decVal_def)

lemma natDigits_canonical: "canonicalNat s \<Longrightarrow> natDigits (nat (decVal s)) = s"
proof (induction s rule: rev_induct)
  case Nil
  then show ?case by (simp add: canonicalNat_def)
next
  case (snoc c xs)
  have c: "isDigit c" and xsd: "list_all isDigit xs"
    using snoc.prems by (auto simp: canonicalNat_def)
  note dc = isDigit_cases[OF c]
  show ?case
  proof (cases "xs = []")
    case True
    have "nat (digitVal c) < 10" using dc by arith
    then show ?thesis using dc True
      by (simp add: decVal_def natDigits.simps[of "nat (digitVal c)"])
  next
    case False
    have hd0: "hd xs \<noteq> CHR ''0''"
      using snoc.prems False by (cases xs) (auto simp: canonicalNat_def)
    then have can: "canonicalNat xs" using False xsd by (simp add: canonicalNat_def)
    have pos: "1 \<le> decVal xs" using decVal_pos[OF xsd False hd0] .
    let ?v = "decVal xs * 10 + digitVal c"
    have ge: "10 \<le> ?v" using pos dc by linarith
    have "?v div 10 = decVal xs" "?v mod 10 = digitVal c" using dc by simp_all
    then have dv: "nat ?v div 10 = nat (decVal xs)" and md: "nat ?v mod 10 = nat (digitVal c)"
      using pos dc nat_div_distrib[of ?v 10] nat_mod_distrib[of ?v 10] by simp_all
    have "\<not> nat ?v < 10" using ge by arith
    then have "natDigits (nat ?v) = natDigits (nat ?v div 10) @ [digitChar (nat ?v mod 10)]"
      by (subst natDigits.simps) simp
    then show ?thesis using snoc.IH[OF can] dv md dc by (simp add: decVal_snoc)
  qed
qed

lemma canonicalNat_nonzero: "canonicalNat s \<Longrightarrow> s \<noteq> ''0'' \<Longrightarrow> 1 \<le> decVal s"
  using decVal_pos[of s] by (auto simp: canonicalNat_def)

lemma canonicalNat_hd: "canonicalNat s \<Longrightarrow> hd s \<noteq> CHR ''-'' \<and> hd s \<noteq> CHR ''+''"
  using isDigit_not_sign[of "hd s"] by (cases s) (auto simp: canonicalNat_def)

lemma fmt_d_ParseInt:
  assumes "canonicalInt s" "ParseInt s = Inr v"
  shows "fmt_d v = s"
proof (cases "s \<noteq> [] \<and> hd s = CHR ''-''")
  case True
  then obtain r where s: "s = CHR ''-'' # r" by (cases s) auto
  have can: "canonicalNat r" and nz: "r \<noteq> ''0''" using assms(1) s by (auto simp: canonicalInt_def)
  have v: "v = - decVal r"
    using assms(2) can by (auto simp: ParseInt_def s Let_def parseDigits_decVal canonicalNat_def split: if_splits)
  have "1 \<le> decVal r" using canonicalNat_nonzero[OF can nz] .
  then show ?thesis using natDigits_canonical[OF can] by (simp add: fmt_d_def v s)
next
  case False
  then have can: "canonicalNat s" using assms(1) by (auto simp: canonicalInt_def)
  have v: "v = decVal s"
    using assms(2) can canonicalNat_hd[OF can]
    by (auto simp: ParseInt_def Let_def parseDigits_decVal canonicalNat_def split: if_splits)
  show ?thesis using natDigits_canonical[OF can] decVal_nonneg[of s] can
    by (simp add: fmt_d_def v canonicalNat_def)
qed




text \<open>
  Claim C4, as stated: every string \<^verbatim>\<open>"N/D"\<close> that \<^verbatim>\<open>NewRational\<close> accepts is
  reproduced by \<^verbatim>\<open>String\<close>.  It fails on \<^verbatim>\<open>"+1/2"\<close>: \<^verbatim>\<open>Atoi\<close> accepts the
  plus sign, and \<^verbatim>\<open>%d\<close> does not print it.
\<close>

theorem Rational_roundtrip_counterexample:
  "NewRational ''+1/2'' = Inr \<lparr>Numerator = 1, Denominator = 2\<rparr>
     \<and> String \<lparr>Numerator = 1, Denominator = 2\<rparr> = ''1/2''
     \<and> ''1/2'' \<noteq> ''+1/2''"
  by (simp add: NewRational_def Atoi_def ParseInt_def isDigit_def digitVal_def
        MinInt64_def MaxInt64_def String_def fmt_d_def natDigits.simps digitChar_def)

text \<open>
  Claim C4, amended.  For every string \<^verbatim>\<open>"N/D"\<close> that \<^verbatim>\<open>NewRational\<close> accepts
  and whose parts \<^verbatim>\<open>N\<close> and \<^verbatim>\<open>D\<close> are canonical decimal integers (no plus
  sign, no leading zero, no \<^verbatim>\<open>-0\<close>), formatting the resulting Rational with
  \<^verbatim>\<open>String\<close> reproduces the input exactly.
\<close>

theorem Rational_roundtrip_canonical:
  assumes "NewRational (n @ ''/'' @ d) = Inr r" "canonicalInt n" "canonicalInt d"
  shows "String r = n @ ''/'' @ d"
proof -
  from assms(1) have len: "length (Split (n @ ''/'' @ d) CHR ''/'') = 2"
    by (auto simp: NewRational_def Let_def split: if_splits)
  then obtain a b where ab: "Split (n @ ''/'' @ d) CHR ''/'' = [a, b]"
    by (auto simp: length2_iff)
  then have eq: "n @ CHR ''/'' # d = a @ CHR ''/'' # b" and na: "CHR ''/'' \<notin> set a"
    by (auto simp: Split_pair)
  have nn: "CHR ''/'' \<notin> set n"
    using assms(2) isDigit_not_sign
    by (cases n) (auto simp: canonicalInt_def canonicalNat_def list_all_iff split: if_splits)
  have "n = a \<and> d = b"
    using eq na nn by (auto simp: append_eq_append_conv2 append_eq_Cons_conv Cons_eq_append_conv)
  then have ab': "Split (n @ ''/'' @ d) CHR ''/'' = [n, d]" using ab by simp
  from assms(1) obtain x y where x: "ParseInt n = Inr x" and y: "ParseInt d = Inr y"
    and r: "r = \<lparr>Numerator = x, Denominator = y\<rparr>"
    unfolding NewRational_def ab' by (auto simp: Atoi_def split: sum.splits)
  show ?thesis
    using fmt_d_ParseInt[OF assms(2) x] fmt_d_ParseInt[OF assms(3) y]
    by (simp add: String_def r)
qed

theorem Rational_roundtrip_canonical_witness:
  "\<exists>r. NewRational (''-12'' @ ''/'' @ ''7'') = Inr r \<and> canonicalInt ''-12'' \<and> canonicalInt ''7''
      \<and> String r = ''-12/7''"
proof -
  have p: "NewRational (''-12'' @ ''/'' @ ''7'') = Inr \<lparr>Numerator = -12, Denominator = 7\<rparr>"
    by (simp add: NewRational_def Atoi_def ParseInt_def isDigit_def digitVal_def
        MinInt64_def MaxInt64_def)
  have c1: "canonicalInt ''-12''" and c2: "canonicalInt ''7''"
    by (simp_all add: canonicalInt_def canonicalNat_def isDigit_def)
  show ?thesis using Rational_roundtrip_canonical[OF p c1 c2] p c1 c2 by simp
qed

end
